theory Spec2Isabelle
  imports Main "HOL-Library.Word"
begin

unbundle bit_operations_syntax

section \<open>JavaScript values\<close>

text \<open>
  The values that reach the cacher as \<open>params\<close>, \<open>meta\<close>, cached content and handler
  results. Numbers are the safe integers (magnitude below 2^53), which \<open>toString\<close>
  prints digit by digit; strings are lists of code units below 256. An object is the
  list of its own enumerable properties in the order \<open>Object.keys\<close> yields them.
  Functions, symbols and prototype properties are outside the model.
\<close>

datatype jsval =
    JUndefined
  | JNull
  | JBool bool
  | JNum int
  | JStr string
  | JArr "jsval list"
  | JObj "(string \<times> jsval) list"

text \<open>\<open>x != null\<close>: false for both \<open>null\<close> and \<open>undefined\<close>.\<close>

fun notNullish :: "jsval \<Rightarrow> bool" where
  "notNullish JUndefined = False"
| "notNullish JNull = False"
| "notNullish _ = True"

text \<open>Truthiness, as tested by \<open>if (params || meta)\<close>.\<close>

fun truthy :: "jsval \<Rightarrow> bool" where
  "truthy JUndefined = False"
| "truthy JNull = False"
| "truthy (JBool b) = b"
| "truthy (JNum n) = (n \<noteq> 0)"
| "truthy (JStr s) = (s \<noteq> [])"
| "truthy (JArr _) = True"
| "truthy (JObj _) = True"

text \<open>lodash's \<open>_.isObject\<close> and \<open>Array.isArray\<close>.\<close>

fun isObject :: "jsval \<Rightarrow> bool" where
  "isObject (JArr _) = True"
| "isObject (JObj _) = True"
| "isObject _ = False"

fun isArray :: "jsval \<Rightarrow> bool" where
  "isArray (JArr _) = True"
| "isArray _ = False"

subsection \<open>String conversion\<close>

definition digit :: "nat \<Rightarrow> char" where
  "digit d = ''0123456789'' ! d"

fun show_nat :: "nat \<Rightarrow> string" where
  "show_nat n = (if n < 10 then [digit n] else show_nat (n div 10) @ [digit (n mod 10)])"

definition show_int :: "int \<Rightarrow> string" where
  "show_int i = (if i < 0 then CHR ''-'' # show_nat (nat (- i)) else show_nat (nat i))"

text \<open>\<open>Array.prototype.join\<close> on an array of strings.\<close>

fun join :: "string \<Rightarrow> string list \<Rightarrow> string" where
  "join sep [] = []"
| "join sep [x] = x"
| "join sep (x # y # ys) = x @ sep @ join sep (y # ys)"

text \<open>
  The string a value turns into under \<open>toString()\<close> and under \<open>+\<close> with a string.
  The cacher applies it to primitives only; arrays and plain objects are given their
  JavaScript rendering all the same.
\<close>

fun toString :: "jsval \<Rightarrow> string" where
  "toString JUndefined = ''undefined''"
| "toString JNull = ''null''"
| "toString (JBool b) = (if b then ''true'' else ''false'')"
| "toString (JNum n) = show_int n"
| "toString (JStr s) = s"
| "toString (JArr xs) =
     join '','' (map (\<lambda>x. if notNullish x then toString x else []) xs)"
| "toString (JObj kvs) = ''[object Object]''"

section \<open>SHA-256 and base64\<close>

text \<open>
  \<open>crypto.createHash("sha256").update(key).digest("base64")\<close>: the string is encoded as
  UTF-8, hashed with SHA-256 (FIPS 180-4) and the 32-byte digest is written in base64.
\<close>

type_synonym byte = "8 word"
type_synonym u32 = "32 word"

definition utf8_char :: "char \<Rightarrow> byte list" where
  "utf8_char c = (let n = (of_char c :: nat) in
     if n < 128 then [of_nat n]
     else [of_nat (192 + n div 64), of_nat (128 + n mod 64)])"

definition utf8 :: "string \<Rightarrow> byte list" where
  "utf8 s = concat (map utf8_char s)"

definition be64 :: "nat \<Rightarrow> byte list" where
  "be64 n = map (\<lambda>i. of_nat (n div 2 ^ (8 * (7 - i)))) [0..<8]"

definition sha_pad :: "byte list \<Rightarrow> byte list" where
  "sha_pad bs =
     bs @ [0x80] @ replicate ((119 - length bs mod 64) mod 64) 0 @ be64 (8 * length bs)"

function chunks :: "nat \<Rightarrow> 'a list \<Rightarrow> 'a list list" where
  "chunks n xs = (if n = 0 \<or> xs = [] then [] else take n xs # chunks n (drop n xs))"
  by pat_completeness auto
termination
  by (relation "measure (\<lambda>(n, xs). length xs)") auto

definition be32 :: "byte list \<Rightarrow> u32" where
  "be32 bs = foldl (\<lambda>acc b. push_bit 8 acc OR ucast b) 0 bs"

definition u32_bytes :: "u32 \<Rightarrow> byte list" where
  "u32_bytes w = [ucast (drop_bit 24 w), ucast (drop_bit 16 w), ucast (drop_bit 8 w), ucast w]"

text \<open>
  The constants of the standard: the first 32 bits of the fractional parts of the cube
  roots of the first 64 primes (round constants) and of the square roots of the first 8
  primes (initial hash value). \<open>iroot k n\<close> is the integer part of the \<open>k\<close>-th root of
  \<open>n\<close>, for \<open>n\<close> below \<open>2 ^ (40 * k)\<close>, found bit by bit from the top.
\<close>

definition first_primes :: "nat list" where
  "first_primes = filter (\<lambda>p. filter (\<lambda>d. p mod d = 0) [2..<p] = []) [2..<312]"

definition iroot :: "nat \<Rightarrow> nat \<Rightarrow> nat" where
  "iroot k n = foldl (\<lambda>r b. if (r + 2 ^ b) ^ k \<le> n then r + 2 ^ b else r) 0 (rev [0..<40])"

definition sha_K :: "u32 list" where
  "sha_K = map (\<lambda>p. of_nat (iroot 3 (p * 2 ^ 96))) first_primes"

datatype hstate = HState u32 u32 u32 u32 u32 u32 u32 u32

definition sha_H0 :: hstate where
  "sha_H0 = (let h = (\<lambda>i. of_nat (iroot 2 ((first_primes ! i) * 2 ^ 64)))
             in HState (h 0) (h 1) (h 2) (h 3) (h 4) (h 5) (h 6) (h 7))"

definition ssig0 :: "u32 \<Rightarrow> u32" where
  "ssig0 x = word_rotr 7 x XOR word_rotr 18 x XOR drop_bit 3 x"

definition ssig1 :: "u32 \<Rightarrow> u32" where
  "ssig1 x = word_rotr 17 x XOR word_rotr 19 x XOR drop_bit 10 x"

fun extend :: "nat \<Rightarrow> u32 list \<Rightarrow> u32 list" where
  "extend 0 w = w"
| "extend (Suc k) w = (let i = length w in
     extend k (w @ [ssig1 (w ! (i - 2)) + w ! (i - 7) + ssig0 (w ! (i - 15)) + w ! (i - 16)]))"

definition schedule :: "byte list \<Rightarrow> u32 list" where
  "schedule chunk = extend 48 (map be32 (chunks 4 chunk))"

fun sha_round :: "hstate \<Rightarrow> u32 \<times> u32 \<Rightarrow> hstate" where
  "sha_round (HState a b c d e f g h) (k, w) =
     (let S1 = word_rotr 6 e XOR word_rotr 11 e XOR word_rotr 25 e;
          ch = (e AND f) XOR (NOT e AND g);
          t1 = h + S1 + ch + k + w;
          S0 = word_rotr 2 a XOR word_rotr 13 a XOR word_rotr 22 a;
          maj = (a AND b) XOR (a AND c) XOR (b AND c);
          t2 = S0 + maj
      in HState (t1 + t2) a b c (d + t1) e f g)"

fun hstate_add :: "hstate \<Rightarrow> hstate \<Rightarrow> hstate" where
  "hstate_add (HState a b c d e f g h) (HState a' b' c' d' e' f' g' h') =
     HState (a + a') (b + b') (c + c') (d + d') (e + e') (f + f') (g + g') (h + h')"

definition sha_chunk :: "hstate \<Rightarrow> byte list \<Rightarrow> hstate" where
  "sha_chunk st chunk = hstate_add st (foldl sha_round st (zip sha_K (schedule chunk)))"

fun hstate_bytes :: "hstate \<Rightarrow> byte list" where
  "hstate_bytes (HState a b c d e f g h) =
     u32_bytes a @ u32_bytes b @ u32_bytes c @ u32_bytes d @
     u32_bytes e @ u32_bytes f @ u32_bytes g @ u32_bytes h"

definition sha256 :: "byte list \<Rightarrow> byte list" where
  "sha256 bs = hstate_bytes (foldl sha_chunk sha_H0 (chunks 64 (sha_pad bs)))"

definition b64_alphabet :: string where
  "b64_alphabet =
     ''ABCDEFGHIJKLMNOPQRSTUVWXYZabcdefghijklmnopqrstuvwxyz0123456789+/''"

definition b64_char :: "nat \<Rightarrow> char" where
  "b64_char n = b64_alphabet ! n"

fun base64 :: "byte list \<Rightarrow> string" where
  "base64 [] = []"
| "base64 [a] = (let x = unat a in
     [b64_char (x div 4), b64_char ((x mod 4) * 16), CHR ''='', CHR ''=''])"
| "base64 [a, b] = (let x = unat a; y = unat b in
     [b64_char (x div 4), b64_char ((x mod 4) * 16 + y div 16),
      b64_char ((y mod 16) * 4), CHR ''=''])"
| "base64 (a # b # c # rest) = (let x = unat a; y = unat b; z = unat c in
     [b64_char (x div 4), b64_char ((x mod 4) * 16 + y div 16),
      b64_char ((y mod 16) * 4 + z div 64), b64_char (z mod 64)] @ base64 rest)"

definition sha256_base64 :: "string \<Rightarrow> string" where
  "sha256_base64 key = base64 (sha256 (utf8 key))"

section \<open>lodash's \<open>_.get\<close>\<close>

text \<open>
  \<open>_.get(object, path)\<close> for a string path, as lodash 4 computes it on the values above:
  a nullish object gives \<open>undefined\<close>; a path without a dot, or one that names a property
  of the object as it stands, is a single key; any other path is split at its dots and
  followed key by key, stopping with \<open>undefined\<close> at the first nullish value. Property
  reads see own properties, the elements and \<open>length\<close> of arrays and strings. The path
  syntax covered is the dotted one; lodash's bracket notation is not modelled.
\<close>

definition index_of :: "string \<Rightarrow> nat \<Rightarrow> nat option" where
  "index_of key n = find (\<lambda>i. show_nat i = key) [0..<n]"

fun has_prop :: "jsval \<Rightarrow> string \<Rightarrow> bool" where
  "has_prop (JObj kvs) key = (map_of kvs key \<noteq> None)"
| "has_prop (JArr xs) key = (key = ''length'' \<or> index_of key (length xs) \<noteq> None)"
| "has_prop (JStr s) key = (key = ''length'' \<or> index_of key (length s) \<noteq> None)"
| "has_prop _ key = False"

fun getProp :: "jsval \<Rightarrow> string \<Rightarrow> jsval" where
  "getProp (JObj kvs) key = (case map_of kvs key of Some v \<Rightarrow> v | None \<Rightarrow> JUndefined)"
| "getProp (JArr xs) key =
     (if key = ''length'' then JNum (int (length xs))
      else case index_of key (length xs) of Some i \<Rightarrow> xs ! i | None \<Rightarrow> JUndefined)"
| "getProp (JStr s) key =
     (if key = ''length'' then JNum (int (length s))
      else case index_of key (length s) of Some i \<Rightarrow> JStr [s ! i] | None \<Rightarrow> JUndefined)"
| "getProp _ key = JUndefined"

fun stringToPath :: "string \<Rightarrow> string list" where
  "stringToPath [] = [[]]"
| "stringToPath (c # cs) =
     (if c = CHR ''.'' then [] # stringToPath cs
      else case stringToPath cs of
             [] \<Rightarrow> [[c]]
           | seg # segs \<Rightarrow> (c # seg) # segs)"

definition isKey :: "string \<Rightarrow> jsval \<Rightarrow> bool" where
  "isKey path object = (if CHR ''.'' \<in> set path then has_prop object path else True)"

definition castPath :: "string \<Rightarrow> jsval \<Rightarrow> string list" where
  "castPath path object = (if isKey path object then [path] else stringToPath path)"

fun baseGet :: "jsval \<Rightarrow> string list \<Rightarrow> jsval" where
  "baseGet object [] = object"
| "baseGet object (key # path) =
     (if notNullish object then baseGet (getProp object key) path else JUndefined)"

definition lodash_get :: "jsval \<Rightarrow> string \<Rightarrow> jsval" where
  "lodash_get object path =
     (if notNullish object then baseGet object (castPath path object) else JUndefined)"

section \<open>The cacher\<close>

subsection \<open>Data\<close>

text \<open>
  The custom key generator of \<open>opts.keygen\<close>: a function of the action name, params,
  meta and the key list.
\<close>

type_synonym keygen_fn = "string \<Rightarrow> jsval \<Rightarrow> jsval \<Rightarrow> string list option \<Rightarrow> string"

text \<open>\<open>this.opts\<close>. An option that is not given is \<open>None\<close>.\<close>

record cacher_opts =
  ttl :: "int option"
  keygen :: "keygen_fn option"
  maxKeyLength :: "int option"
  prefix :: "string option"

text \<open>The constructor: \<open>_.defaultsDeep\<close> fills in \<open>maxKeyLength: 44\<close> where none is given.\<close>

definition defaultsDeep :: "cacher_opts \<Rightarrow> cacher_opts" where
  "defaultsDeep opts =
     (case maxKeyLength opts of None \<Rightarrow> opts\<lparr>maxKeyLength := Some 44\<rparr> | Some _ \<Rightarrow> opts)"

text \<open>The invocation context: \<open>ctx.params\<close>, \<open>ctx.meta\<close> and the flag \<open>ctx.cachedResult\<close>.\<close>

record ctx =
  params :: jsval
  meta :: jsval
  cachedResult :: bool

text \<open>
  An action with its optional cache configuration \<open>action.cache\<close>; \<open>cache: true\<close> is a
  configuration with neither keys nor ttl.
\<close>

record cache_conf =
  cache_keys :: "string list option"
  cache_ttl :: "int option"

record action =
  name :: string
  cache :: "cache_conf option"

datatype error = Error string

text \<open>
  How a call that returns a promise can end: it throws before returning one, or the
  promise it returns is rejected, or resolved with a value.
\<close>

datatype 'a completion = Throws error | Rejects error | Resolves 'a

text \<open>
  A handler runs on the context and on the state \<open>'w\<close> of everything outside the cacher
  (the storage backend's contents included); it may change both.
\<close>

type_synonym 'w handler = "ctx \<Rightarrow> 'w \<Rightarrow> jsval completion \<times> ctx \<times> 'w"

text \<open>
  A cacher instance: its options and the \<open>get\<close> and \<open>set\<close> methods a concrete backend
  supplies, here \<open>backend_get\<close> and \<open>backend_set\<close>. \<open>set\<close> takes the key, the data and
  the ttl.
\<close>

record 'w cacher =
  opts :: cacher_opts
  backend_get :: "string \<Rightarrow> 'w \<Rightarrow> jsval completion \<times> 'w"
  backend_set :: "string \<Rightarrow> jsval \<Rightarrow> int option \<Rightarrow> 'w \<Rightarrow> unit completion \<times> 'w"

text \<open>The abstract class itself: \<open>get\<close> and \<open>set\<close> throw.\<close>

definition Cacher :: "cacher_opts \<Rightarrow> 'w cacher" where
  "Cacher options = \<lparr>opts = defaultsDeep options,
     backend_get = (\<lambda>key w. (Throws (Error ''Not implemented method!''), w)),
     backend_set = (\<lambda>key data t w. (Throws (Error ''Not implemented method!''), w))\<rparr>"

subsection \<open>Key derivation\<close>

definition getParamMetaValue :: "string \<Rightarrow> jsval \<Rightarrow> jsval \<Rightarrow> jsval" where
  "getParamMetaValue key ps mt =
     (if (key \<noteq> [] \<and> hd key = CHR ''#'') \<and> notNullish mt then lodash_get mt (drop 1 key)
      else if notNullish ps then lodash_get ps key
      else JUndefined)"

fun generateKeyFromObject :: "jsval \<Rightarrow> string" where
  "generateKeyFromObject (JArr xs) = join ''|'' (map generateKeyFromObject xs)"
| "generateKeyFromObject (JObj kvs) =
     join ''|'' (map (\<lambda>(key, v). join ''|'' [key, generateKeyFromObject v]) kvs)"
| "generateKeyFromObject JUndefined = ''null''"
| "generateKeyFromObject JNull = ''null''"
| "generateKeyFromObject v = toString v"

definition hashObj :: "'w cacher \<Rightarrow> jsval \<Rightarrow> string" where
  "hashObj this obj =
     (let maxLen = (case maxKeyLength (opts this) of
                      None \<Rightarrow> 44
                    | Some n \<Rightarrow> if n = 0 then 44 else n);
          key = generateKeyFromObject obj
      in if maxLen < 44 \<or> int (length key) \<le> maxLen then key
         else let prefixLength = maxLen - 44;
                  base64Hash = sha256_base64 key
              in if prefixLength < 1 then base64Hash
                 else take (nat prefixLength) key @ base64Hash)"

definition defaultKeygen ::
  "'w cacher \<Rightarrow> string \<Rightarrow> jsval \<Rightarrow> jsval \<Rightarrow> string list option \<Rightarrow> string" where
  "defaultKeygen this actionName ps mt keys =
     (if truthy ps \<or> truthy mt then
        let keyPrefix = actionName @ '':'' in
        case keys of
          Some ks \<Rightarrow>
            if length ks = 1 then
              let val = getParamMetaValue (ks ! 0) ps mt
              in keyPrefix @ (if isObject val then hashObj this val else toString val)
            else if length ks > 0 then
              foldl (\<lambda>a (key, i).
                       let val = getParamMetaValue key ps mt
                       in a @ (if i \<noteq> 0 then ''|'' else [])
                            @ (if isObject val \<or> isArray val then hashObj this val
                               else toString val))
                    keyPrefix (zip ks [0..<length ks])
            else actionName
        | None \<Rightarrow> keyPrefix @ hashObj this ps
      else actionName)"

definition getCacheKey ::
  "'w cacher \<Rightarrow> string \<Rightarrow> jsval \<Rightarrow> jsval \<Rightarrow> string list option \<Rightarrow> string" where
  "getCacheKey this actionName ps mt keys =
     (case keygen (opts this) of
        Some f \<Rightarrow> f actionName ps mt keys
      | None \<Rightarrow> defaultKeygen this actionName ps mt keys)"

subsection \<open>The middleware\<close>

text \<open>
  \<open>cacherMiddleware\<close> is the wrapped handler of an action that has a cache configuration.
  The promise chain is run in order on the outside state: \<open>get\<close>, then on a miss the
  handler, then \<open>set\<close>, whose returned promise is dropped. An exception thrown inside a
  \<open>then\<close> callback rejects the promise the wrapped handler returned.
\<close>

definition cacherMiddleware ::
  "'w cacher \<Rightarrow> 'w handler \<Rightarrow> action \<Rightarrow> cache_conf \<Rightarrow> 'w handler" where
  "cacherMiddleware this handler act conf c w =
     (let cacheKey = getCacheKey this (name act) (params c) (meta c) (cache_keys conf) in
      case backend_get this cacheKey w of
        (Throws e, w1) \<Rightarrow> (Throws e, c, w1)
      | (Rejects e, w1) \<Rightarrow> (Rejects e, c, w1)
      | (Resolves content, w1) \<Rightarrow>
          if notNullish content then (Resolves content, c\<lparr>cachedResult := True\<rparr>, w1)
          else (case handler c w1 of
                  (Throws e, c2, w2) \<Rightarrow> (Rejects e, c2, w2)
                | (Rejects e, c2, w2) \<Rightarrow> (Rejects e, c2, w2)
                | (Resolves result, c2, w2) \<Rightarrow>
                    (case backend_set this cacheKey result (cache_ttl conf) w2 of
                       (Throws e, w3) \<Rightarrow> (Rejects e, c2, w3)
                     | (_, w3) \<Rightarrow> (Resolves result, c2, w3))))"

definition middleware :: "'w cacher \<Rightarrow> 'w handler \<Rightarrow> action \<Rightarrow> 'w handler" where
  "middleware this handler act =
     (case cache act of
        Some conf \<Rightarrow> cacherMiddleware this handler act conf
      | None \<Rightarrow> handler)"

section \<open>Observing the calls\<close>

text \<open>
  To count calls, the backend methods and the handler are wrapped so that each call is
  appended to a log kept beside the outside state, as a test spy would. The wrapped
  functions return what the original ones return.
\<close>

datatype event = CallGet string | CallHandler ctx | CallSet string jsval "int option"

definition spy_get ::
  "(string \<Rightarrow> 'w \<Rightarrow> jsval completion \<times> 'w)
   \<Rightarrow> string \<Rightarrow> event list \<times> 'w \<Rightarrow> jsval completion \<times> event list \<times> 'w" where
  "spy_get g key = (\<lambda>(log, w). case g key w of (r, w') \<Rightarrow> (r, (log @ [CallGet key], w')))"

definition spy_set ::
  "(string \<Rightarrow> jsval \<Rightarrow> int option \<Rightarrow> 'w \<Rightarrow> unit completion \<times> 'w)
   \<Rightarrow> string \<Rightarrow> jsval \<Rightarrow> int option \<Rightarrow> event list \<times> 'w
   \<Rightarrow> unit completion \<times> event list \<times> 'w" where
  "spy_set s key data t =
     (\<lambda>(log, w). case s key data t w of (r, w') \<Rightarrow> (r, (log @ [CallSet key data t], w')))"

definition spy_handler :: "'w handler \<Rightarrow> (event list \<times> 'w) handler" where
  "spy_handler h c =
     (\<lambda>(log, w). case h c w of (r, c', w') \<Rightarrow> (r, c', (log @ [CallHandler c], w')))"

definition spied :: "'w cacher \<Rightarrow> (event list \<times> 'w) cacher" where
  "spied this = \<lparr>opts = opts this,
     backend_get = spy_get (backend_get this),
     backend_set = spy_set (backend_set this)\<rparr>"

section \<open>Instances used in the examples\<close>

text \<open>\<open>new Cacher({})\<close> takes \<open>no_opts\<close>; \<open>with_maxKeyLength n\<close> is \<open>new Cacher({maxKeyLength: n})\<close>.\<close>

definition no_opts :: cacher_opts where
  "no_opts = \<lparr>ttl = None, keygen = None, maxKeyLength = None, prefix = None\<rparr>"

definition with_maxKeyLength :: "int \<Rightarrow> unit cacher" where
  "with_maxKeyLength n = Cacher (no_opts\<lparr>maxKeyLength := Some n\<rparr>)"

text \<open>
  Example backends over a list of stored entries: \<open>list_get\<close> resolves with the stored
  content or \<open>null\<close>; \<open>list_set\<close> stores and resolves; \<open>rejecting_set\<close> returns a promise
  that is rejected; \<open>broken_set\<close> throws. \<open>bounded_set\<close> stores and resolves while the
  store holds fewer than \<open>capacity\<close> entries, and throws once it is full.
\<close>

type_synonym entries = "(string \<times> jsval) list"

definition list_get :: "string \<Rightarrow> entries \<Rightarrow> jsval completion \<times> entries" where
  "list_get key w = (Resolves (case map_of w key of Some v \<Rightarrow> v | None \<Rightarrow> JNull), w)"

definition list_set ::
  "string \<Rightarrow> jsval \<Rightarrow> int option \<Rightarrow> entries \<Rightarrow> unit completion \<times> entries" where
  "list_set key data t w = (Resolves (), (key, data) # w)"

definition rejecting_set ::
  "string \<Rightarrow> jsval \<Rightarrow> int option \<Rightarrow> entries \<Rightarrow> unit completion \<times> entries" where
  "rejecting_set key data t w = (Rejects (Error ''timeout''), w)"

definition broken_set ::
  "string \<Rightarrow> jsval \<Rightarrow> int option \<Rightarrow> entries \<Rightarrow> unit completion \<times> entries" where
  "broken_set key data t w = (Throws (Error ''connection is closed''), w)"

definition list_cacher :: "entries cacher" where
  "list_cacher = (Cacher no_opts)\<lparr>backend_get := list_get, backend_set := list_set\<rparr>"

definition rejecting_cacher :: "entries cacher" where
  "rejecting_cacher = (Cacher no_opts)\<lparr>backend_get := list_get, backend_set := rejecting_set\<rparr>"

definition broken_cacher :: "entries cacher" where
  "broken_cacher = (Cacher no_opts)\<lparr>backend_get := list_get, backend_set := broken_set\<rparr>"

definition capacity :: nat where
  "capacity = 1"

definition bounded_set ::
  "string \<Rightarrow> jsval \<Rightarrow> int option \<Rightarrow> entries \<Rightarrow> unit completion \<times> entries" where
  "bounded_set key data t w =
     (if length w < capacity then (Resolves (), (key, data) # w)
      else (Throws (Error ''cache is full''), w))"

definition bounded_cacher :: "entries cacher" where
  "bounded_cacher = (Cacher no_opts)\<lparr>backend_get := list_get, backend_set := bounded_set\<rparr>"

text \<open>A handler that resolves with 42, a cached and an uncached action, and a context.\<close>

definition answer :: "entries handler" where
  "answer c w = (Resolves (JNum 42), c, w)"

definition get_action :: action where
  "get_action =
     \<lparr>name = ''get'', cache = Some \<lparr>cache_keys = Some [''id''], cache_ttl = Some 30\<rparr>\<rparr>"

definition plain_action :: action where
  "plain_action = \<lparr>name = ''get'', cache = None\<rparr>"

definition ctx5 :: ctx where
  "ctx5 = \<lparr>params = JObj [(''id'', JNum 5)], meta = JNull, cachedResult = False\<rparr>"

section \<open>Length of the hash\<close>

lemma length_base64: "length (base64 bs) = 4 * ((length bs + 2) div 3)"
proof (induction bs rule: base64.induct)
  case (4 a b c rest)
  have "(length (a # b # c # rest) + 2) div 3 = Suc ((length rest + 2) div 3)"
    by simp
  with 4 show ?case
    by (simp add: Let_def)
qed (simp_all add: Let_def)

lemma length_u32_bytes: "length (u32_bytes w) = 4"
  by (simp add: u32_bytes_def)

lemma length_hstate_bytes: "length (hstate_bytes st) = 32"
  by (cases st) (simp add: length_u32_bytes)

lemma length_sha256: "length (sha256 bs) = 32"
  by (simp add: sha256_def length_hstate_bytes)

lemma length_sha256_base64: "length (sha256_base64 key) = 44"
  by (simp add: sha256_base64_def length_base64 length_sha256)

lemma opts_with_maxKeyLength: "maxKeyLength (opts (with_maxKeyLength n)) = Some n"
  by (simp add: with_maxKeyLength_def Cacher_def defaultsDeep_def no_opts_def)

lemma hashObj_opts: "opts a = opts b \<Longrightarrow> hashObj a v = hashObj b v"
  by (simp add: hashObj_def)

section \<open>Bounding the key (\<open>_hashObj\<close>)\<close>

text \<open>
  C3, as the specification states it: for every configured \<open>maxKeyLength\<close> below 44,
  0 included, \<open>_hashObj\<close> returns the stringified value unchanged. It fails at 0:
  \<open>this.opts.maxKeyLength || 44\<close> reads a configured 0 as 44, so a 45-character key comes
  back as its 44-character hash.
\<close>

theorem hashObj_zero_limit_counterexample:
  "hashObj (with_maxKeyLength 0) (JStr (replicate 45 CHR ''a''))
     \<noteq> generateKeyFromObject (JStr (replicate 45 CHR ''a''))"
proof -
  have "hashObj (with_maxKeyLength 0) (JStr (replicate 45 CHR ''a''))
          = sha256_base64 (replicate 45 CHR ''a'')"
    by (simp add: hashObj_def opts_with_maxKeyLength Let_def)
  then have "length (hashObj (with_maxKeyLength 0) (JStr (replicate 45 CHR ''a''))) = 44"
    by (simp add: length_sha256_base64)
  moreover have "length (generateKeyFromObject (JStr (replicate 45 CHR ''a''))) = 45"
    by simp
  ultimately show ?thesis
    by force
qed

text \<open>
  C3, amended: for every configured \<open>maxKeyLength\<close> below 44 other than 0, \<open>_hashObj\<close>
  returns the stringified value unchanged, whatever its length; a configured 0 behaves
  as a configured 44.
\<close>

theorem hashObj_small_limit:
  assumes "maxKeyLength (opts this) = Some n" and "n < 44"
  shows "(n \<noteq> 0 \<longrightarrow> hashObj this v = generateKeyFromObject v)
       \<and> (n = 0 \<longrightarrow> hashObj this v
             = hashObj (this\<lparr>opts := (opts this)\<lparr>maxKeyLength := Some 44\<rparr>\<rparr>) v)"
  using assms by (simp add: hashObj_def Let_def)

theorem hashObj_small_limit_witness:
  "hashObj (with_maxKeyLength 43) (JStr (replicate 45 CHR ''a'')) = replicate 45 CHR ''a''
   \<and> hashObj (with_maxKeyLength 0) (JStr ''abc'')
       = hashObj ((with_maxKeyLength 0)
                    \<lparr>opts := (opts (with_maxKeyLength 0))\<lparr>maxKeyLength := Some 44\<rparr>\<rparr>)
           (JStr ''abc'')"
  using hashObj_small_limit [of "with_maxKeyLength 43" 43 "JStr (replicate 45 CHR ''a'')"]
        hashObj_small_limit [of "with_maxKeyLength 0" 0 "JStr ''abc''"]
  by (simp add: opts_with_maxKeyLength)

text \<open>
  C5: for every value and every configured \<open>maxKeyLength\<close> of at least 44, the result of
  \<open>_hashObj\<close> is at most \<open>maxKeyLength\<close> long: it is the stringified value when that
  fits, and otherwise its first \<open>maxKeyLength - 44\<close> characters followed by the
  44-character base64 SHA-256 hash of the stringified value.
\<close>

theorem hashObj_bounded:
  assumes "maxKeyLength (opts this) = Some n" and "44 \<le> n"
  shows "int (length (hashObj this v)) \<le> n
       \<and> hashObj this v =
           (if int (length (generateKeyFromObject v)) \<le> n then generateKeyFromObject v
            else take (nat (n - 44)) (generateKeyFromObject v)
                 @ sha256_base64 (generateKeyFromObject v))
       \<and> length (sha256_base64 (generateKeyFromObject v)) = 44"
  using assms by (auto simp add: hashObj_def Let_def length_sha256_base64)

theorem hashObj_bounded_witness:
  "length (hashObj (with_maxKeyLength 50) (JStr (replicate 60 CHR ''a''))) \<le> 50
   \<and> hashObj (with_maxKeyLength 50) (JStr (replicate 60 CHR ''a''))
       = replicate 6 CHR ''a'' @ sha256_base64 (replicate 60 CHR ''a'')"
  using hashObj_bounded [of "with_maxKeyLength 50" 50 "JStr (replicate 60 CHR ''a'')"]
  by (simp add: opts_with_maxKeyLength)

text \<open>
  C8: whenever the stringified value is no longer than the configured \<open>maxKeyLength\<close>,
  \<open>_hashObj\<close> returns it as it is.
\<close>

theorem hashObj_fits:
  assumes "maxKeyLength (opts this) = Some n"
    and "int (length (generateKeyFromObject v)) \<le> n"
  shows "hashObj this v = generateKeyFromObject v"
  using assms by (auto simp add: hashObj_def Let_def)

theorem hashObj_fits_witness:
  "hashObj (with_maxKeyLength 3) (JArr [JStr ''a'', JStr ''b'']) = ''a|b''"
  using hashObj_fits [of "with_maxKeyLength 3" 3 "JArr [JStr ''a'', JStr ''b'']"]
  by (simp add: opts_with_maxKeyLength)

text \<open>
  C10: \<open>_generateKeyFromObject\<close> is not injective, since \<open>|\<close> is never escaped: the array
  \<open>["a","b"]\<close> and the string \<open>"a|b"\<close> give the same string, and so do
  \<open>{a: "1|b", c: 2}\<close> and \<open>{a: 1, b: {c: 2}}\<close>, which therefore get the same cache key.
\<close>

theorem generateKeyFromObject_not_injective:
  "generateKeyFromObject (JArr [JStr ''a'', JStr ''b'']) = generateKeyFromObject (JStr ''a|b'')
   \<and> JArr [JStr ''a'', JStr ''b''] \<noteq> JStr ''a|b''
   \<and> generateKeyFromObject (JObj [(''a'', JStr ''1|b''), (''c'', JNum 2)])
       = generateKeyFromObject (JObj [(''a'', JNum 1), (''b'', JObj [(''c'', JNum 2)])])
   \<and> JObj [(''a'', JStr ''1|b''), (''c'', JNum 2)]
       \<noteq> JObj [(''a'', JNum 1), (''b'', JObj [(''c'', JNum 2)])]
   \<and> defaultKeygen this ''find'' (JObj [(''a'', JStr ''1|b''), (''c'', JNum 2)]) JNull None
       = defaultKeygen this ''find''
           (JObj [(''a'', JNum 1), (''b'', JObj [(''c'', JNum 2)])]) JNull None"
  by (simp add: defaultKeygen_def hashObj_def show_int_def digit_def)

section \<open>Key generation (\<open>defaultKeygen\<close>)\<close>

text \<open>
  C1, as the specification states it: with \<open>keys\<close> an explicit empty list,
  \<open>defaultKeygen\<close> returns the action name, a colon and the hash of the whole params,
  as with no \<open>keys\<close>. It does not: an empty array is truthy, neither length test holds,
  and the function ends in \<open>return actionName\<close>.
\<close>

theorem defaultKeygen_empty_keys_counterexample:
  "defaultKeygen (Cacher no_opts :: unit cacher) ''get'' (JObj [(''id'', JNum 5)]) JNull (Some [])
     \<noteq> ''get'' @ '':'' @ hashObj (Cacher no_opts :: unit cacher) (JObj [(''id'', JNum 5)])"
  by (simp add: defaultKeygen_def)

text \<open>
  C1, amended: with \<open>keys\<close> an explicit empty list \<open>defaultKeygen\<close> returns the action
  name alone, for every params and meta; with \<open>keys\<close> absent and params or meta truthy
  it returns the action name, a colon and the hash of the whole params.
\<close>

theorem defaultKeygen_empty_keys:
  "defaultKeygen this actionName ps mt (Some []) = actionName
   \<and> (truthy ps \<or> truthy mt \<longrightarrow>
        defaultKeygen this actionName ps mt None = actionName @ '':'' @ hashObj this ps)"
  by (simp add: defaultKeygen_def)

theorem defaultKeygen_empty_keys_witness:
  "defaultKeygen (Cacher no_opts :: unit cacher) ''get'' (JObj [(''id'', JNum 5)]) JNull (Some [])
     = ''get''
   \<and> defaultKeygen (Cacher no_opts :: unit cacher) ''get'' (JObj [(''id'', JNum 5)]) JNull None
       = ''get:id|5''"
proof -
  have h: "hashObj (Cacher no_opts :: unit cacher) (JObj [(''id'', JNum 5)]) = ''id|5''"
    by (simp add: hashObj_def Cacher_def defaultsDeep_def no_opts_def show_int_def digit_def)
  show ?thesis
    using defaultKeygen_empty_keys
            [of "Cacher no_opts :: unit cacher" "''get''" "JObj [(''id'', JNum 5)]" JNull]
    by (simp add: h)
qed

text \<open>
  C7: the three scenarios of the specification. \<open>defaultKeygen("get", {id: 5}, null,
  ["id"])\<close> is \<open>"get:5"\<close>; \<open>defaultKeygen("get", {id: 5, name: "x"}, null,
  ["id","name"])\<close> is \<open>"get:5|x"\<close>; \<open>defaultKeygen("get", null, null, null)\<close> is \<open>"get"\<close>.
\<close>

theorem defaultKeygen_scenarios:
  "defaultKeygen this ''get'' (JObj [(''id'', JNum 5)]) JNull (Some [''id'']) = ''get:5''
   \<and> defaultKeygen this ''get'' (JObj [(''id'', JNum 5), (''name'', JStr ''x'')]) JNull
        (Some [''id'', ''name'']) = ''get:5|x''
   \<and> defaultKeygen this ''get'' JNull JNull None = ''get''"
  by (simp add: defaultKeygen_def getParamMetaValue_def lodash_get_def castPath_def isKey_def
        show_int_def digit_def upt_rec)

section \<open>Field selectors (\<open>getParamMetaValue\<close>)\<close>

lemma getParamMetaValue_meta:
  "notNullish mt \<Longrightarrow> getParamMetaValue (CHR ''#'' # sel) ps mt = lodash_get mt sel"
  by (simp add: getParamMetaValue_def)

lemma getParamMetaValue_no_meta:
  "\<not> notNullish mt \<Longrightarrow> notNullish ps \<Longrightarrow> getParamMetaValue sel ps mt = lodash_get ps sel"
  by (simp add: getParamMetaValue_def)

text \<open>
  C6: a selector that starts with \<open>#\<close> is read from meta, never from params, and gives
  \<open>undefined\<close> when meta is absent. The code misses the second half: with meta
  \<open>null\<close> the test \<open>key.startsWith("#") && meta != null\<close> fails and the \<open>else if\<close> reads
  the selector, \<open>#\<close> included, from params. Here params has a property named \<open>#a\<close>,
  and its value comes back where \<open>undefined\<close> is due.
\<close>

theorem getParamMetaValue_hash_selector_reads_params:
  "getParamMetaValue ''#a'' (JObj [(''#a'', JNum 1)]) JNull = JNum 1"
  by (simp add: getParamMetaValue_def lodash_get_def castPath_def isKey_def)

section \<open>The middleware\<close>

lemma getCacheKey_opts:
  assumes "opts a = opts b"
  shows "getCacheKey a n p m k = getCacheKey b n p m k"
proof -
  have h: "hashObj a = hashObj b"
    using assms by (auto simp add: hashObj_def)
  have "defaultKeygen a n p m k = defaultKeygen b n p m k"
    unfolding defaultKeygen_def h ..
  then show ?thesis
    using assms by (simp add: getCacheKey_def split: option.splits)
qed

lemma getCacheKey_spied: "getCacheKey (spied this) n p m k = getCacheKey this n p m k"
  by (rule getCacheKey_opts) (simp add: spied_def)

lemma getCacheKey_id5:
  "getCacheKey this ''get'' (JObj [(''id'', JNum 5)]) JNull (Some [''id'']) =
     (case keygen (opts this) of
        Some f \<Rightarrow> f ''get'' (JObj [(''id'', JNum 5)]) JNull (Some [''id''])
      | None \<Rightarrow> ''get:5'')"
  by (simp add: getCacheKey_def defaultKeygen_def getParamMetaValue_def lodash_get_def
        castPath_def isKey_def show_int_def digit_def split: option.splits)

lemma cache_get_action:
  "cache get_action = Some \<lparr>cache_keys = Some [''id''], cache_ttl = Some 30\<rparr>"
  by (simp add: get_action_def)

lemma answer_ctx5: "answer ctx5 [] = (Resolves (JNum 42), ctx5, [])"
  by (simp add: answer_def)

text \<open>
  C2, as the specification states it: when \<open>get\<close> returns \<open>null\<close>, the handler's result
  is returned. It is not when the \<open>set\<close> call throws: the exception leaves the \<open>then\<close>
  callback before \<open>return result\<close>, and the invocation is rejected. Here \<open>get\<close> resolves
  with \<open>null\<close>, the handler resolves with 42, and the caller gets the error of \<open>set\<close>.
\<close>

theorem middleware_miss_counterexample:
  "backend_get broken_cacher ''get:5'' [] = (Resolves JNull, [])
   \<and> answer ctx5 [] = (Resolves (JNum 42), ctx5, [])
   \<and> middleware broken_cacher answer get_action ctx5 []
       = (Rejects (Error ''connection is closed''), ctx5, [])"
  by (simp add: middleware_def cacherMiddleware_def get_action_def ctx5_def getCacheKey_id5
        broken_cacher_def Cacher_def defaultsDeep_def no_opts_def list_get_def broken_set_def
        answer_def)

text \<open>
  C2, amended: for an action with a cache configuration, if \<open>get(cacheKey)\<close> resolves
  with non-null content, the handler is not invoked, \<open>ctx.cachedResult\<close> is set to true
  and the content is returned; if it resolves with \<open>null\<close> and the handler resolves
  with a result, the handler is invoked exactly once with the unmodified context,
  \<open>set(cacheKey, result, ttl)\<close> is invoked exactly once with that result, and the result
  is returned unless the \<open>set\<close> call throws, in which case the invocation is rejected with
  the thrown error.
\<close>

theorem middleware_hit_miss:
  assumes "cache act = Some conf"
    and "backend_get this (getCacheKey this (name act) (params c) (meta c) (cache_keys conf)) w
           = (Resolves content, wa)"
  shows "(notNullish content \<longrightarrow>
            middleware (spied this) (spy_handler handler) act c (log, w)
              = (Resolves content, c\<lparr>cachedResult := True\<rparr>,
                 (log @ [CallGet (getCacheKey this (name act) (params c) (meta c)
                                    (cache_keys conf))], wa)))
       \<and> (\<not> notNullish content \<and> handler c wa = (Resolves result, ca, wb)
          \<and> backend_set this (getCacheKey this (name act) (params c) (meta c) (cache_keys conf))
               result (cache_ttl conf) wb = (r, wc) \<longrightarrow>
            middleware (spied this) (spy_handler handler) act c (log, w)
              = ((case r of Throws e \<Rightarrow> Rejects e | _ \<Rightarrow> Resolves result), ca,
                 (log @ [CallGet (getCacheKey this (name act) (params c) (meta c)
                                    (cache_keys conf)),
                         CallHandler c,
                         CallSet (getCacheKey this (name act) (params c) (meta c)
                                    (cache_keys conf))
                           result (cache_ttl conf)], wc)))"
proof -
  let ?key = "getCacheKey this (name act) (params c) (meta c) (cache_keys conf)"
  have run: "middleware (spied this) (spy_handler handler) act c (log, w)
      = cacherMiddleware (spied this) (spy_handler handler) act conf c (log, w)"
    using assms(1) by (simp add: middleware_def)
  have get: "backend_get (spied this) ?key (log, w)
      = (Resolves content, (log @ [CallGet ?key], wa))"
    using assms(2) by (simp add: spied_def spy_get_def)
  have hit: "notNullish content \<Longrightarrow>
      cacherMiddleware (spied this) (spy_handler handler) act conf c (log, w)
        = (Resolves content, c\<lparr>cachedResult := True\<rparr>, (log @ [CallGet ?key], wa))"
    by (simp add: cacherMiddleware_def getCacheKey_spied get)
  have miss: "cacherMiddleware (spied this) (spy_handler handler) act conf c (log, w)
        = ((case r of Throws e \<Rightarrow> Rejects e | _ \<Rightarrow> Resolves result), ca,
           (log @ [CallGet ?key, CallHandler c, CallSet ?key result (cache_ttl conf)], wc))"
    if "\<not> notNullish content" and "handler c wa = (Resolves result, ca, wb)"
      and "backend_set this ?key result (cache_ttl conf) wb = (r, wc)"
  proof -
    have h: "spy_handler handler c (log @ [CallGet ?key], wa)
        = (Resolves result, ca, (log @ [CallGet ?key, CallHandler c], wb))"
      using that(2) by (simp add: spy_handler_def)
    have s: "backend_set (spied this) ?key result (cache_ttl conf)
          (log @ [CallGet ?key, CallHandler c], wb)
        = (r, (log @ [CallGet ?key, CallHandler c, CallSet ?key result (cache_ttl conf)], wc))"
      using that(3) by (simp add: spied_def spy_set_def)
    show ?thesis
      using that(1)
      by (cases r) (simp_all add: cacherMiddleware_def getCacheKey_spied get h s Let_def)
  qed
  show ?thesis
    using hit miss by (simp add: run)
qed

theorem middleware_hit_miss_witness:
  "middleware (spied list_cacher) (spy_handler answer) get_action ctx5
       ([], [(''get:5'', JStr ''hit'')])
     = (Resolves (JStr ''hit''), ctx5\<lparr>cachedResult := True\<rparr>,
        ([CallGet ''get:5''], [(''get:5'', JStr ''hit'')]))
   \<and> middleware (spied list_cacher) (spy_handler answer) get_action ctx5 ([], [])
     = (Resolves (JNum 42), ctx5,
        ([CallGet ''get:5'', CallHandler ctx5, CallSet ''get:5'' (JNum 42) (Some 30)],
         [(''get:5'', JNum 42)]))"
proof -
  have k: "getCacheKey list_cacher (name get_action) (params ctx5) (meta ctx5) (Some [''id''])
      = ''get:5''"
    by (simp add: get_action_def ctx5_def getCacheKey_id5 list_cacher_def Cacher_def
          defaultsDeep_def no_opts_def)
  have g1: "backend_get list_cacher ''get:5'' [(''get:5'', JStr ''hit'')]
      = (Resolves (JStr ''hit''), [(''get:5'', JStr ''hit'')])"
    by (simp add: list_cacher_def list_get_def)
  have g2: "backend_get list_cacher ''get:5'' [] = (Resolves JNull, [])"
    by (simp add: list_cacher_def list_get_def)
  have s: "backend_set list_cacher ''get:5'' (JNum 42) (Some 30) []
      = (Resolves (), [(''get:5'', JNum 42)])"
    by (simp add: list_cacher_def list_set_def)
  show ?thesis
    using middleware_hit_miss
            [where act = get_action
               and conf = "\<lparr>cache_keys = Some [''id''], cache_ttl = Some 30\<rparr>"
               and this = list_cacher and c = ctx5 and handler = answer and log = "[]"
               and w = "[(''get:5'', JStr ''hit'')]" and content = "JStr ''hit''"
               and wa = "[(''get:5'', JStr ''hit'')]"]
          middleware_hit_miss
            [where act = get_action
               and conf = "\<lparr>cache_keys = Some [''id''], cache_ttl = Some 30\<rparr>"
               and this = list_cacher and c = ctx5 and handler = answer and log = "[]"
               and w = "[]" and content = JNull and wa = "[]"
               and result = "JNum 42" and ca = ctx5 and wb = "[]"
               and r = "Resolves ()" and wc = "[(''get:5'', JNum 42)]"]
    by (simp add: cache_get_action k g1 g2 answer_ctx5 s)
qed

text \<open>
  C4, as the specification states it: on a miss with a successful handler, a failing
  \<open>set\<close> never fails the invocation. It does when the \<open>set\<close> of a concrete backend
  fails by throwing. \<open>bounded_cacher\<close> implements \<open>get\<close> and \<open>set\<close>, and its \<open>set\<close>
  stores an entry while there is room. With the store full, \<open>get\<close> misses, the handler
  resolves with 42, \<open>set\<close> throws, and the caller gets the error instead of 42.
\<close>

theorem middleware_set_throws_counterexample:
  "backend_set bounded_cacher ''get:5'' (JNum 42) (Some 30) []
     = (Resolves (), [(''get:5'', JNum 42)])
   \<and> backend_get bounded_cacher ''get:5'' [(''list'', JArr [])]
       = (Resolves JNull, [(''list'', JArr [])])
   \<and> answer ctx5 [(''list'', JArr [])] = (Resolves (JNum 42), ctx5, [(''list'', JArr [])])
   \<and> backend_set bounded_cacher ''get:5'' (JNum 42) (Some 30) [(''list'', JArr [])]
       = (Throws (Error ''cache is full''), [(''list'', JArr [])])
   \<and> fst (middleware bounded_cacher answer get_action ctx5 [(''list'', JArr [])])
       = Rejects (Error ''cache is full'')
   \<and> fst (middleware bounded_cacher answer get_action ctx5 [(''list'', JArr [])])
       \<noteq> Resolves (JNum 42)"
  by (simp add: middleware_def cacherMiddleware_def get_action_def ctx5_def getCacheKey_id5
        bounded_cacher_def Cacher_def defaultsDeep_def no_opts_def list_get_def bounded_set_def
        capacity_def answer_def)

text \<open>
  C4, amended: on a miss with a successful handler, a \<open>set\<close> that returns a promise does
  not change the outcome, whether that promise is resolved or rejected: the handler's
  result is returned. A \<open>set\<close> call that throws turns the invocation into a rejection
  with the thrown error.
\<close>

theorem middleware_set_failure:
  assumes "cache act = Some conf"
    and "backend_get this (getCacheKey this (name act) (params c) (meta c) (cache_keys conf)) w
           = (Resolves content, wa)"
    and "\<not> notNullish content"
    and "handler c wa = (Resolves result, ca, wb)"
  shows "fst (middleware this handler act c w)
           = (case fst (backend_set this
                          (getCacheKey this (name act) (params c) (meta c) (cache_keys conf))
                          result (cache_ttl conf) wb) of
                Throws e \<Rightarrow> Rejects e
              | Rejects e \<Rightarrow> Resolves result
              | Resolves u \<Rightarrow> Resolves result)"
  using assms
  by (auto simp add: middleware_def cacherMiddleware_def Let_def
        split: completion.splits prod.splits)

theorem middleware_set_failure_witness:
  "fst (middleware rejecting_cacher answer get_action ctx5 []) = Resolves (JNum 42)
   \<and> fst (middleware broken_cacher answer get_action ctx5 [])
       = Rejects (Error ''connection is closed'')"
proof -
  have k1: "getCacheKey rejecting_cacher (name get_action) (params ctx5) (meta ctx5)
              (Some [''id'']) = ''get:5''"
    by (simp add: get_action_def ctx5_def getCacheKey_id5 rejecting_cacher_def Cacher_def
          defaultsDeep_def no_opts_def)
  have k2: "getCacheKey broken_cacher (name get_action) (params ctx5) (meta ctx5)
              (Some [''id'']) = ''get:5''"
    by (simp add: get_action_def ctx5_def getCacheKey_id5 broken_cacher_def Cacher_def
          defaultsDeep_def no_opts_def)
  show ?thesis
    using middleware_set_failure
            [where act = get_action
               and conf = "\<lparr>cache_keys = Some [''id''], cache_ttl = Some 30\<rparr>"
               and this = rejecting_cacher
               and c = ctx5 and handler = answer and w = "[]" and content = JNull
               and wa = "[]" and result = "JNum 42" and ca = ctx5 and wb = "[]"]
          middleware_set_failure
            [where act = get_action
               and conf = "\<lparr>cache_keys = Some [''id''], cache_ttl = Some 30\<rparr>"
               and this = broken_cacher
               and c = ctx5 and handler = answer and w = "[]" and content = JNull
               and wa = "[]" and result = "JNum 42" and ca = ctx5 and wb = "[]"]
    by (simp add: cache_get_action k1 k2 answer_ctx5 rejecting_cacher_def broken_cacher_def
          list_get_def rejecting_set_def broken_set_def)
qed

text \<open>
  C9: for an action without a cache configuration the middleware returns the handler
  itself. An invocation is then the handler's own: no key is computed, neither \<open>get\<close>
  nor \<open>set\<close> is called, and the context is the one the handler leaves.
\<close>

theorem middleware_pass_through:
  assumes "cache act = None"
  shows "middleware this handler act = handler
       \<and> middleware (spied this) (spy_handler handler) act c (log, w)
           = (case handler c w of (r, c', w') \<Rightarrow> (r, c', (log @ [CallHandler c], w')))"
  using assms by (simp add: middleware_def spy_handler_def)

theorem middleware_pass_through_witness:
  "middleware list_cacher answer plain_action = answer
   \<and> middleware (spied list_cacher) (spy_handler answer) plain_action ctx5 ([], [])
       = (Resolves (JNum 42), ctx5, ([CallHandler ctx5], []))"
  using middleware_pass_through
          [where act = plain_action and this = list_cacher and handler = answer
             and c = ctx5 and log = "[]" and w = "[]"]
  by (simp add: plain_action_def answer_def)

end
